theory Spec2Isabelle
  imports Complex_Main
begin

section \<open>Python values, dictionaries and exceptions\<close>

text \<open>
  The records the engine receives are JSON objects decoded into Python dictionaries. A
  cell holds \<open>None\<close>, a boolean, a number or a string. Python's
  \<open>int\<close> and \<open>float\<close> are both read as real numbers: sums and
  comparisons are exact. A raised exception is the left injection of a sum type.
\<close>

datatype pyval = PNone | PBool bool | PNum real | PStr string

datatype error =
    TypeError string
  | AttributeError string
  | KeyError string
  | ValueError string
  | LibraryError string

type_synonym pydict = "string \<rightharpoonup> pyval"

text \<open>\<open>d.get(k, default)\<close>\<close>

definition dict_get :: "pydict \<Rightarrow> string \<Rightarrow> pyval \<Rightarrow> pyval" where
  "dict_get d k dflt = (case d k of None \<Rightarrow> dflt | Some v \<Rightarrow> v)"

text \<open>Sequencing of computations that may raise.\<close>

definition ebind :: "error + 'a \<Rightarrow> ('a \<Rightarrow> error + 'b) \<Rightarrow> error + 'b" where
  "ebind m f = (case m of Inl e \<Rightarrow> Inl e | Inr v \<Rightarrow> f v)"

text \<open>
  The numeric reading of a cell in an ordering comparison or in arithmetic: numbers and
  booleans (\<open>True\<close> is 1) have one, \<open>None\<close> and strings raise
  \<open>TypeError\<close>.
\<close>

fun as_number :: "pyval \<Rightarrow> real option" where
  "as_number (PNum x) = Some x"
| "as_number (PBool b) = Some (if b then 1 else 0)"
| "as_number PNone = None"
| "as_number (PStr s) = None"

definition py_lt :: "pyval \<Rightarrow> real \<Rightarrow> error + bool" where
  "py_lt v c = (case as_number v of None \<Rightarrow> Inl (TypeError ''<'') | Some x \<Rightarrow> Inr (x < c))"

definition py_gt :: "pyval \<Rightarrow> real \<Rightarrow> error + bool" where
  "py_gt v c = (case as_number v of None \<Rightarrow> Inl (TypeError ''>'') | Some x \<Rightarrow> Inr (x > c))"

text \<open>\<open>a and b\<close> on comparisons: \<open>b\<close> is evaluated only when \<open>a\<close> is true.\<close>

definition py_and :: "error + bool \<Rightarrow> error + bool \<Rightarrow> error + bool" where
  "py_and a b = (case a of Inl e \<Rightarrow> Inl e | Inr c \<Rightarrow> (if c then b else Inr False))"

text \<open>Truth value of a cell (\<open>not x\<close>, \<open>if x\<close>).\<close>

fun truthy :: "pyval \<Rightarrow> bool" where
  "truthy PNone = False"
| "truthy (PBool b) = b"
| "truthy (PNum x) = (x \<noteq> 0)"
| "truthy (PStr s) = (s \<noteq> [])"

text \<open>\<open>sep.join(xs)\<close>\<close>

fun join :: "string \<Rightarrow> string list \<Rightarrow> string" where
  "join sep [] = []"
| "join sep [x] = x"
| "join sep (x # y # ys) = x @ sep @ join sep (y # ys)"

section \<open>The behaviour verdict\<close>

record verdict =
  isHuman :: bool
  confidence :: real
  modelVersion :: string
  reason :: string
  prob_human :: real
  prob_bot :: real

section \<open>Rule-based behaviour classifier (src/ml/mock\_inference.py)\<close>

text \<open>
  One rule of \<open>predict_human_mock\<close>: when the condition holds, the indicator is
  appended to its list and the running score moves by \<open>delta\<close>.
\<close>

definition indicator :: "bool \<Rightarrow> string \<Rightarrow> real \<Rightarrow> string list \<times> real \<Rightarrow> string list \<times> real" where
  "indicator c name delta st = (if c then (fst st @ [name], snd st + delta) else st)"

definition mock_reason :: "bool \<Rightarrow> string list \<Rightarrow> string list \<Rightarrow> string" where
  "mock_reason is_human bot_indicators human_indicators =
     (if is_human
      then ''Human indicators: '' @
        (if human_indicators \<noteq> [] then join '', '' human_indicators else ''normal behavior patterns'')
      else ''Bot indicators: '' @
        (if bot_indicators \<noteq> [] then join '', '' bot_indicators else ''suspicious behavior patterns''))"

definition mock_result :: "string list \<Rightarrow> string list \<Rightarrow> real \<Rightarrow> verdict" where
  "mock_result bot_indicators human_indicators conf =
     (let is_human = (conf < 0.6);
          final_confidence = \<bar>conf - 0.5\<bar> * 2
      in \<lparr> isHuman = is_human,
           confidence = min 1.0 (max 0.0 final_confidence),
           modelVersion = ''mock-1.0.0'',
           reason = mock_reason is_human bot_indicators human_indicators,
           prob_human = (if is_human then 1 - final_confidence else 0.1),
           prob_bot = (if \<not> is_human then final_confidence else 0.1) \<rparr>)"

definition predict_human_mock :: "pydict \<Rightarrow> error + verdict" where
  "predict_human_mock snapshot =
     (let time_on_page = dict_get snapshot ''timeOnPageSeconds'' (PNum 0);
          mouse_rate = dict_get snapshot ''mouseMoveRate'' (PNum 0);
          key_rate = dict_get snapshot ''keyPressRate'' (PNum 0);
          idle_ratio = dict_get snapshot ''idleRatio'' (PNum 0);
          interaction_score = dict_get snapshot ''interactionScore'' (PNum 0);
          s0 = ([], 0.5)
      in
      ebind (py_lt time_on_page 5) (\<lambda>c1.
      ebind (py_and (py_lt mouse_rate 0.1) (py_lt key_rate 0.1)) (\<lambda>c2.
      ebind (py_gt idle_ratio 0.7) (\<lambda>c3.
      ebind (py_lt interaction_score 0.1) (\<lambda>c4.
      let b = indicator c4 ''low interaction score'' 0.1
               (indicator c3 ''high idle ratio'' 0.2
                 (indicator c2 ''minimal interaction'' 0.2
                   (indicator c1 ''very short time on page'' 0.3 s0)))
      in
      ebind (py_and (py_gt time_on_page 30) (py_lt time_on_page 300)) (\<lambda>c5.
      ebind (py_and (py_gt mouse_rate 0.5) (py_gt key_rate 0.1)) (\<lambda>c6.
      ebind (py_lt idle_ratio 0.5) (\<lambda>c7.
      let h = indicator c7 ''low idle ratio'' (- 0.1)
               (indicator c6 ''active interaction'' (- 0.2)
                 (indicator c5 ''reasonable time on page'' (- 0.2) ([], snd b)))
      in Inr (mock_result (fst b) (fst h) (snd h))))))))))"

text \<open>
  The score as the specification words it: 0.5, plus the penalties whose condition
  holds, minus the credits whose condition holds.  The time-on-page band is the open
  interval between 30 and 300 seconds.
\<close>

definition adjusted_score :: "real \<Rightarrow> real \<Rightarrow> real \<Rightarrow> real \<Rightarrow> real \<Rightarrow> real" where
  "adjusted_score t m k idle iscore =
     0.5
     + (if t < 5 then 0.3 else 0)
     + (if m < 0.1 \<and> k < 0.1 then 0.2 else 0)
     + (if idle > 0.7 then 0.2 else 0)
     + (if iscore < 0.1 then 0.1 else 0)
     - (if 30 < t \<and> t < 300 then 0.2 else 0)
     - (if m > 0.5 \<and> k > 0.1 then 0.2 else 0)
     - (if idle < 0.5 then 0.1 else 0)"

section \<open>Learned behaviour classifier (src/ml/behavior\_inference.py)\<close>

definition FEATURE_COLUMNS :: "string list" where
  "FEATURE_COLUMNS =
     [''mouseMoveCount'', ''keyPressCount'', ''timeOnPageSeconds'', ''mouseMoveRate'',
      ''keyPressRate'', ''interactionBalance'', ''interactionScore'', ''idleRatio'']"

text \<open>
  \<open>prepare_features\<close>: a value that is \<open>None\<close> or not an
  \<open>int\<close>/\<open>float\<close> becomes 0 (a Python \<open>bool\<close> is an
  \<open>int\<close>).
\<close>

definition prepare_features :: "pydict \<Rightarrow> real list" where
  "prepare_features snapshot =
     map (\<lambda>feature. case as_number (dict_get snapshot feature (PNum 0)) of
                        None \<Rightarrow> 0 | Some x \<Rightarrow> x) FEATURE_COLUMNS"

text \<open>
  The stored bundle \<open>model_data\<close>. The classifier and the scaler are
  scikit-learn objects: their methods are parameters, and each may raise. A missing key
  of the bundle is \<open>None\<close> here and raises \<open>KeyError\<close> when read
  with \<open>model_data[...]\<close>.
\<close>

record behavior_model =
  bm_predict :: "real list \<Rightarrow> error + pyval"
  bm_predict_proba :: "real list \<Rightarrow> error + real list"

record model_data =
  md_model :: "behavior_model option"
  md_scaler :: "(real list \<Rightarrow> error + real list) option"
  md_version :: "string option"

definition subscript :: "'a option \<Rightarrow> string \<Rightarrow> error + 'a" where
  "subscript field k = (case field of None \<Rightarrow> Inl (KeyError k) | Some v \<Rightarrow> Inr v)"

fun error_message :: "error \<Rightarrow> string" where
  "error_message (TypeError s) = s"
| "error_message (AttributeError s) = s"
| "error_message (KeyError s) = s"
| "error_message (ValueError s) = s"
| "error_message (LibraryError s) = s"

definition bot_reasons :: "pydict \<Rightarrow> error + string list" where
  "bot_reasons snapshot =
     (let time_on_page = dict_get snapshot ''timeOnPageSeconds'' (PNum 0);
          mouse_rate = dict_get snapshot ''mouseMoveRate'' (PNum 0);
          key_rate = dict_get snapshot ''keyPressRate'' (PNum 0);
          idle_ratio = dict_get snapshot ''idleRatio'' (PNum 0)
      in
      ebind (py_lt time_on_page 5) (\<lambda>c1.
      ebind (py_and (py_lt mouse_rate 0.1) (py_lt key_rate 0.1)) (\<lambda>c2.
      ebind (py_gt idle_ratio 0.7) (\<lambda>c3.
      Inr ((if c1 then [''very short time on page''] else [])
           @ (if c2 then [''minimal interaction''] else [])
           @ (if c3 then [''high idle ratio''] else []))))))"

text \<open>The body of the \<open>try\<close> block of \<open>predict_human\<close>.\<close>

definition predict_human_try :: "model_data \<Rightarrow> pydict \<Rightarrow> error + verdict" where
  "predict_human_try md snapshot =
     ebind (subscript (md_model md) ''model'') (\<lambda>model.
     ebind (subscript (md_scaler md) ''scaler'') (\<lambda>scaler.
     let version = (case md_version md of None \<Rightarrow> ''unknown'' | Some v \<Rightarrow> v);
         features = prepare_features snapshot
     in
     ebind (scaler features) (\<lambda>features_scaled.
     ebind (bm_predict model features_scaled) (\<lambda>prediction.
     ebind (bm_predict_proba model features_scaled) (\<lambda>probabilities.
     let human_prob = (if length probabilities > 1 then probabilities ! 1 else 0.0);
         bot_prob = (if length probabilities > 0 then probabilities ! 0 else 0.0);
         is_human = (as_number prediction = Some 1);
         conf = max human_prob bot_prob
     in
     ebind (if \<not> is_human
            then ebind (bot_reasons snapshot) (\<lambda>reasons.
                   Inr (if reasons \<noteq> [] then ''Bot indicators: '' @ join '', '' reasons
                        else ''Behavioral patterns match human interaction''))
            else Inr ''Behavioral patterns match human interaction'') (\<lambda>rsn.
     Inr \<lparr> isHuman = is_human, confidence = conf, modelVersion = version, reason = rsn,
           prob_human = human_prob, prob_bot = bot_prob \<rparr>))))))"

text \<open>The verdict of the \<open>except Exception\<close> handler.\<close>

definition error_verdict :: "error \<Rightarrow> verdict" where
  "error_verdict e =
     \<lparr> isHuman = False, confidence = 0.0, modelVersion = ''error'',
       reason = ''Prediction error: '' @ error_message e,
       prob_human = 0.0, prob_bot = 1.0 \<rparr>"

definition predict_human :: "model_data \<Rightarrow> pydict \<Rightarrow> verdict" where
  "predict_human md snapshot =
     (case predict_human_try md snapshot of Inl e \<Rightarrow> error_verdict e | Inr v \<Rightarrow> v)"

section \<open>Strings and patterns\<close>

text \<open>
  Strings are read as ASCII. \<open>chomp\<close> accounts for \<open>$\<close> in a
  Python pattern, which also matches just before a final newline.
\<close>

definition is_digit :: "char \<Rightarrow> bool" where
  "is_digit c = (c \<in> set ''0123456789'')"

definition is_upper_or_digit :: "char \<Rightarrow> bool" where
  "is_upper_or_digit c = (c \<in> set ''ABCDEFGHIJKLMNOPQRSTUVWXYZ0123456789'')"

definition lower_char :: "char \<Rightarrow> char" where
  "lower_char c =
     (case map_of (zip ''ABCDEFGHIJKLMNOPQRSTUVWXYZ'' ''abcdefghijklmnopqrstuvwxyz'') c of
        None \<Rightarrow> c | Some d \<Rightarrow> d)"

definition lower :: "string \<Rightarrow> string" where
  "lower s = map lower_char s"

fun starts_with :: "string \<Rightarrow> string \<Rightarrow> bool" where
  "starts_with s [] = True"
| "starts_with [] (p # ps) = False"
| "starts_with (c # cs) (p # ps) = (c = p \<and> starts_with cs ps)"

text \<open>\<open>needle in hay\<close>\<close>

fun contains :: "string \<Rightarrow> string \<Rightarrow> bool" where
  "contains [] needle = (needle = [])"
| "contains (c # cs) needle = (starts_with (c # cs) needle \<or> contains cs needle)"

definition chomp :: "string \<Rightarrow> string" where
  "chomp s = (if s \<noteq> [] \<and> last s = CHR 0x0A then butlast s else s)"

text \<open>\<open>^[\+]?[1-9][\d]{0,15}$\<close>\<close>

definition phone_pattern :: "string \<Rightarrow> bool" where
  "phone_pattern s =
     (let u = chomp s;
          r = (case u of [] \<Rightarrow> [] | c # cs \<Rightarrow> if c = CHR ''+'' then cs else u)
      in case r of [] \<Rightarrow> False
         | d # ds \<Rightarrow> d \<in> set ''123456789'' \<and> list_all is_digit ds \<and> length ds \<le> 15)"

text \<open>\<open>^[A-Z0-9]{6,20}$\<close>\<close>

definition license_pattern :: "string \<Rightarrow> bool" where
  "license_pattern s =
     (let u = chomp s in list_all is_upper_or_digit u \<and> 6 \<le> length u \<and> length u \<le> 20)"

text \<open>\<open>^\d{9,12}$\<close>\<close>

definition tax_id_pattern :: "string \<Rightarrow> bool" where
  "tax_id_pattern s =
     (let u = chomp s in list_all is_digit u \<and> 9 \<le> length u \<and> length u \<le> 12)"

text \<open>The segment between the first and the second \<open>@\<close>: \<open>email.split('@')[1]\<close>.\<close>

definition split_at_second :: "string \<Rightarrow> string" where
  "split_at_second email =
     takeWhile (\<lambda>c. c \<noteq> CHR ''@'') (drop 1 (dropWhile (\<lambda>c. c \<noteq> CHR ''@'') email))"

section \<open>Risk model: feature engineering (ml\_models/clinic\_risk\_model.py)\<close>

text \<open>
  \<open>predict_risk\<close> builds a one-row data frame from the submitted dictionary: its
  columns are the dictionary's keys.  The feature frame keeps the order in which its
  columns were assigned.  Cell operations of pandas on such a row:
  \<^item> \<open>notna\<close>, \<open>fillna\<close>;
  \<open>.fillna('').str\<close> raises \<open>AttributeError\<close> on a column of numbers or booleans;
  \<^item> arithmetic and ordering raise \<open>TypeError\<close> on a string; a missing value gives
    a missing result in arithmetic and \<open>False\<close> in a comparison;
  \<^item> \<open>.astype(int)\<close> turns a boolean into 0 or 1.
  A missing cell of a frame is \<open>PNone\<close>.
\<close>

type_synonym frame = "(string \<times> pyval) list"

fun set_col :: "string \<Rightarrow> pyval \<Rightarrow> frame \<Rightarrow> frame" where
  "set_col k v [] = [(k, v)]"
| "set_col k v ((k', v') # xs) = (if k = k' then (k, v) # xs else (k', v') # set_col k v xs)"

definition columns :: "frame \<Rightarrow> string list" where
  "columns X = map fst X"

definition notna :: "pyval \<Rightarrow> bool" where
  "notna v = (v \<noteq> PNone)"

definition fillna :: "pyval \<Rightarrow> pyval \<Rightarrow> pyval" where
  "fillna v d = (if v = PNone then d else v)"

definition astype_int :: "bool \<Rightarrow> pyval" where
  "astype_int b = PNum (if b then 1 else 0)"

fun str_of_cell :: "pyval \<Rightarrow> error + string" where
  "str_of_cell PNone = Inr []"
| "str_of_cell (PStr s) = Inr s"
| "str_of_cell (PBool b) = Inl (AttributeError ''Can only use .str accessor with string values!'')"
| "str_of_cell (PNum x) = Inl (AttributeError ''Can only use .str accessor with string values!'')"

fun num_of_cell :: "pyval \<Rightarrow> error + real option" where
  "num_of_cell PNone = Inr None"
| "num_of_cell (PNum x) = Inr (Some x)"
| "num_of_cell (PBool b) = Inr (Some (if b then 1 else 0))"
| "num_of_cell (PStr s) = Inl (TypeError ''unsupported operand type(s)'')"

definition pd_gt :: "pyval \<Rightarrow> real \<Rightarrow> error + bool" where
  "pd_gt v c = ebind (num_of_cell v) (\<lambda>x. Inr (case x of None \<Rightarrow> False | Some y \<Rightarrow> y > c))"

definition pd_lt :: "pyval \<Rightarrow> real \<Rightarrow> error + bool" where
  "pd_lt v c = ebind (num_of_cell v) (\<lambda>x. Inr (case x of None \<Rightarrow> False | Some y \<Rightarrow> y < c))"

definition pd_ge :: "pyval \<Rightarrow> real \<Rightarrow> error + bool" where
  "pd_ge v c = ebind (num_of_cell v) (\<lambda>x. Inr (case x of None \<Rightarrow> False | Some y \<Rightarrow> y \<ge> c))"

definition pd_eq :: "pyval \<Rightarrow> real \<Rightarrow> bool" where
  "pd_eq v c = (as_number v = Some c)"

text \<open>
  What the engine takes from its surroundings: the clock, pandas' timestamp parser (hour
  and day of week of a cell, \<open>None\<close> for a missing time),
  \<open>len(json.loads(s))\<close> (\<open>None\<close> when either raises), and the
  columns of a frame that pandas stores with dtype \<open>object\<close>.
\<close>

record env =
  current_year :: real
  now_isoformat :: string
  to_datetime :: "pyval \<Rightarrow> error + (nat \<times> nat) option"
  json_len :: "string \<Rightarrow> nat option"
  object_columns :: "frame \<Rightarrow> string list"

type_synonym fstate = "frame \<times> pydict"

text \<open>1. Submission pattern features.  The new columns are also written to \<open>df\<close>.\<close>

definition feat_submission :: "env \<Rightarrow> fstate \<Rightarrow> error + fstate" where
  "feat_submission E = (\<lambda>(features, df).
     case df ''submission_timestamp'' of
       None \<Rightarrow> Inr (features, df)
     | Some v \<Rightarrow>
         ebind (to_datetime E v) (\<lambda>ts.
         let submission_hour = (case ts of None \<Rightarrow> PNone | Some (h, d) \<Rightarrow> PNum (real h));
             submission_day_of_week = (case ts of None \<Rightarrow> PNone | Some (h, d) \<Rightarrow> PNum (real d));
             is_weekend_submission =
               astype_int (case ts of None \<Rightarrow> False | Some (h, d) \<Rightarrow> d \<in> set [5, 6]);
             is_business_hours =
               astype_int (case ts of None \<Rightarrow> False | Some (h, d) \<Rightarrow> 9 \<le> h \<and> h \<le> 17);
             is_late_night =
               astype_int (case ts of None \<Rightarrow> False | Some (h, d) \<Rightarrow> 22 \<le> h \<and> h \<le> 6)
         in Inr (set_col ''is_late_night'' is_late_night
                  (set_col ''is_business_hours'' is_business_hours
                    (set_col ''is_weekend_submission'' is_weekend_submission
                      (set_col ''submission_day_of_week'' submission_day_of_week
                        (set_col ''submission_hour'' submission_hour features)))),
                 df(''submission_hour'' \<mapsto> submission_hour,
                    ''submission_day_of_week'' \<mapsto> submission_day_of_week,
                    ''is_weekend_submission'' \<mapsto> is_weekend_submission,
                    ''is_business_hours'' \<mapsto> is_business_hours,
                    ''is_late_night'' \<mapsto> is_late_night))))"

text \<open>2. Clinic information features.\<close>

definition feat_clinic_name :: "fstate \<Rightarrow> error + fstate" where
  "feat_clinic_name = (\<lambda>(features, df).
     case df ''clinic_name'' of
       None \<Rightarrow> Inr (features, df)
     | Some v \<Rightarrow>
         ebind (str_of_cell v) (\<lambda>s.
         Inr (set_col ''has_numbers_in_name'' (astype_int (list_ex is_digit s))
               (set_col ''clinic_name_length'' (PNum (real (length s))) features), df)))"

definition feat_website :: "fstate \<Rightarrow> error + fstate" where
  "feat_website = (\<lambda>(features, df).
     case df ''website'' of
       None \<Rightarrow> Inr (features, df)
     | Some v \<Rightarrow>
         ebind (str_of_cell v) (\<lambda>s.
         Inr (set_col ''website_length'' (PNum (real (length s)))
               (set_col ''has_website'' (astype_int (notna v)) features), df)))"

definition feat_phone :: "fstate \<Rightarrow> error + fstate" where
  "feat_phone = (\<lambda>(features, df).
     case df ''phone'' of
       None \<Rightarrow> Inr (features, df)
     | Some v \<Rightarrow>
         ebind (str_of_cell v) (\<lambda>s.
         Inr (set_col ''phone_is_valid'' (astype_int (phone_pattern s))
               (set_col ''phone_length'' (PNum (real (length s)))
                 (set_col ''has_phone'' (astype_int (notna v)) features)), df)))"

definition classify_email_domain :: "pyval \<Rightarrow> string" where
  "classify_email_domain email =
     (case email of
        PStr s \<Rightarrow>
          if CHR ''@'' \<notin> set s then ''unknown''
          else (let domain = lower (split_at_second s) in
                if list_ex (contains domain) [''gmail'', ''yahoo'', ''hotmail'', ''outlook'']
                then ''personal''
                else if list_ex (contains domain) [''clinic'', ''medical'', ''health'']
                then ''professional''
                else ''business'')
      | _ \<Rightarrow> ''unknown'')"

definition feat_email :: "fstate \<Rightarrow> error + fstate" where
  "feat_email = (\<lambda>(features, df).
     case df ''email'' of
       None \<Rightarrow> Inr (features, df)
     | Some v \<Rightarrow>
         ebind (str_of_cell v) (\<lambda>s.
         Inr (set_col ''email_domain_type'' (PStr (classify_email_domain (fillna v (PStr []))))
               (set_col ''email_length'' (PNum (real (length s))) features), df)))"

text \<open>3. License and accreditation features.\<close>

definition feat_license :: "fstate \<Rightarrow> error + fstate" where
  "feat_license = (\<lambda>(features, df).
     case df ''license_number'' of
       None \<Rightarrow> Inr (features, df)
     | Some v \<Rightarrow>
         ebind (str_of_cell v) (\<lambda>s.
         Inr (set_col ''license_format_valid'' (astype_int (license_pattern s))
               (set_col ''license_length'' (PNum (real (length s)))
                 (set_col ''has_license'' (astype_int (notna v)) features)), df)))"

definition feat_accreditation :: "fstate \<Rightarrow> error + fstate" where
  "feat_accreditation = (\<lambda>(features, df).
     case df ''accreditation'' of
       None \<Rightarrow> Inr (features, df)
     | Some v \<Rightarrow>
         ebind (str_of_cell v) (\<lambda>s.
         Inr (set_col ''accreditation_length'' (PNum (real (length s)))
               (set_col ''has_accreditation'' (astype_int (notna v)) features), df)))"

definition feat_tax_id :: "fstate \<Rightarrow> error + fstate" where
  "feat_tax_id = (\<lambda>(features, df).
     case df ''tax_id'' of
       None \<Rightarrow> Inr (features, df)
     | Some v \<Rightarrow>
         ebind (str_of_cell v) (\<lambda>s.
         Inr (set_col ''tax_id_format_valid'' (astype_int (tax_id_pattern s))
               (set_col ''has_tax_id'' (astype_int (notna v)) features), df)))"

text \<open>4. Location features.\<close>

definition location_cols :: "string list" where
  "location_cols = [''address'', ''city'', ''state'', ''zip_code'']"

definition feat_location_col :: "string \<Rightarrow> fstate \<Rightarrow> error + fstate" where
  "feat_location_col c = (\<lambda>(features, df).
     case df c of
       None \<Rightarrow> Inr (features, df)
     | Some v \<Rightarrow>
         ebind (str_of_cell v) (\<lambda>s.
         Inr (set_col (c @ ''_length'') (PNum (real (length s)))
               (set_col (''has_'' @ c) (astype_int (notna v)) features), df)))"

definition feat_address_completeness :: "fstate \<Rightarrow> error + fstate" where
  "feat_address_completeness = (\<lambda>(features, df).
     if list_all (\<lambda>c. df c \<noteq> None) location_cols
     then Inr (set_col ''address_completeness''
                 (PNum (real (length (filter (\<lambda>c. notna (dict_get df c PNone)) location_cols))
                        / real (length location_cols))) features, df)
     else Inr (features, df))"

definition feat_coordinates :: "fstate \<Rightarrow> error + fstate" where
  "feat_coordinates = (\<lambda>(features, df).
     if df ''latitude'' \<noteq> None \<and> df ''longitude'' \<noteq> None
     then Inr (set_col ''has_coordinates''
                 (astype_int (notna (dict_get df ''latitude'' PNone)
                              \<and> notna (dict_get df ''longitude'' PNone))) features, df)
     else Inr (features, df))"

text \<open>5. Business maturity features; \<open>years_in_business\<close> is also written to \<open>df\<close>.\<close>

definition feat_maturity :: "env \<Rightarrow> fstate \<Rightarrow> error + fstate" where
  "feat_maturity E = (\<lambda>(features, df).
     case df ''year_established'' of
       None \<Rightarrow> Inr (features, df)
     | Some v \<Rightarrow>
         ebind (num_of_cell (fillna v (PNum (current_year E)))) (\<lambda>y.
         let years_in_business =
               (case y of None \<Rightarrow> PNone | Some x \<Rightarrow> PNum (current_year E - x))
         in
         ebind (pd_lt years_in_business 1) (\<lambda>is_new.
         ebind (pd_ge years_in_business 5) (\<lambda>is_est.
         Inr (set_col ''is_established'' (astype_int is_est)
               (set_col ''is_new_business'' (astype_int is_new)
                 (set_col ''years_in_business'' years_in_business features)),
              df(''years_in_business'' \<mapsto> years_in_business))))))"

text \<open>6. Scale features.\<close>

definition feat_doctors :: "fstate \<Rightarrow> error + fstate" where
  "feat_doctors = (\<lambda>(features, df).
     case df ''number_of_doctors'' of
       None \<Rightarrow> Inr (features, df)
     | Some v \<Rightarrow>
         ebind (pd_gt v 10) (\<lambda>is_large.
         Inr (set_col ''is_large_clinic'' (astype_int is_large)
               (set_col ''is_solo_practice'' (astype_int (pd_eq v 1))
                 (set_col ''number_of_doctors'' (fillna v (PNum 1)) features)), df)))"

definition feat_staff :: "fstate \<Rightarrow> error + fstate" where
  "feat_staff = (\<lambda>(features, df).
     case df ''number_of_staff'' of
       None \<Rightarrow> Inr (features, df)
     | Some staff \<Rightarrow>
         (let features1 = set_col ''number_of_staff'' (fillna staff (PNum 0)) features in
          case df ''number_of_doctors'' of
            None \<Rightarrow> Inr (features1, df)
          | Some doctors \<Rightarrow>
              ebind (num_of_cell staff) (\<lambda>s.
              ebind (num_of_cell doctors) (\<lambda>d.
              Inr (set_col ''doctor_to_staff_ratio''
                     (case (s, d) of
                        (Some x, Some y) \<Rightarrow> PNum (x / (if y = 0 then 1 else y))
                      | _ \<Rightarrow> PNone) features1, df)))))"

text \<open>7. Service features.\<close>

definition service_cols :: "string list" where
  "service_cols = [''specialties'', ''custom_specialties'', ''services'', ''custom_services'']"

definition count_array_items :: "env \<Rightarrow> pyval \<Rightarrow> nat" where
  "count_array_items E array_str =
     (case array_str of
        PStr s \<Rightarrow> if s = [] then 0 else (case json_len E s of None \<Rightarrow> 0 | Some n \<Rightarrow> n)
      | _ \<Rightarrow> 0)"

definition feat_service_col :: "env \<Rightarrow> string \<Rightarrow> fstate \<Rightarrow> error + fstate" where
  "feat_service_col E c = (\<lambda>(features, df).
     case df c of
       None \<Rightarrow> Inr (features, df)
     | Some v \<Rightarrow>
         Inr (set_col (c @ ''_count'')
               (PNum (real (count_array_items E (fillna v (PStr ''[]''))))) features, df))"

definition feat_total_specialties :: "fstate \<Rightarrow> error + fstate" where
  "feat_total_specialties = (\<lambda>(features, df).
     if df ''specialties'' \<noteq> None \<and> df ''custom_specialties'' \<noteq> None
     then
       ebind (num_of_cell (dict_get (map_of features) ''specialties_count'' PNone)) (\<lambda>a.
       ebind (num_of_cell (dict_get (map_of features) ''custom_specialties_count'' PNone)) (\<lambda>b.
       Inr (set_col ''has_custom_specialties''
              (astype_int (case b of None \<Rightarrow> False | Some y \<Rightarrow> y > 0))
             (set_col ''total_specialties''
               (case (a, b) of (Some x, Some y) \<Rightarrow> PNum (x + y) | _ \<Rightarrow> PNone) features), df)))
     else Inr (features, df))"

text \<open>8. Behavioural metrics: the column itself and one threshold flag.\<close>

definition feat_metric :: "string \<Rightarrow> string \<Rightarrow> (pyval \<Rightarrow> error + bool) \<Rightarrow> fstate \<Rightarrow> error + fstate" where
  "feat_metric c flag test = (\<lambda>(features, df).
     case df c of
       None \<Rightarrow> Inr (features, df)
     | Some v \<Rightarrow>
         ebind (test v) (\<lambda>b.
         Inr (set_col flag (astype_int b) (set_col c v features), df)))"

text \<open>9. Text quality features.\<close>

definition medical_terms :: "string list" where
  "medical_terms = [''medical'', ''healthcare'', ''patients'', ''treatment'', ''care'', ''professional'']"

definition calculate_text_quality :: "pyval \<Rightarrow> real" where
  "calculate_text_quality text =
     (case text of
        PStr s \<Rightarrow>
          if length s = 0 then 0.0
          else (let score1 = (if length s > 50 then 0.3 else 0.0);
                    score2 = score1 + (if length s > 150 then 0.2 else 0);
                    score3 = score2 + (if length s > 300 then 0.2 else 0);
                    found_terms = length (filter (\<lambda>t. contains (lower s) (lower t)) medical_terms);
                    score4 = score3 + min 0.3 (real found_terms * 0.1)
                in min 1.0 score4)
      | _ \<Rightarrow> 0.0)"

definition feat_description :: "fstate \<Rightarrow> error + fstate" where
  "feat_description = (\<lambda>(features, df).
     case df ''description'' of
       None \<Rightarrow> Inr (features, df)
     | Some v \<Rightarrow>
         ebind (str_of_cell v) (\<lambda>s.
         Inr (set_col ''description_quality'' (PNum (calculate_text_quality (fillna v (PStr []))))
               (set_col ''has_description'' (astype_int (length s > 0))
                 (set_col ''description_length'' (PNum (real (length s))) features)), df)))"

definition feature_steps :: "env \<Rightarrow> (fstate \<Rightarrow> error + fstate) list" where
  "feature_steps E =
     [feat_submission E, feat_clinic_name, feat_website, feat_phone, feat_email,
      feat_license, feat_accreditation, feat_tax_id]
     @ map feat_location_col location_cols
     @ [feat_address_completeness, feat_coordinates, feat_maturity E, feat_doctors, feat_staff]
     @ map (feat_service_col E) service_cols
     @ [feat_total_specialties,
        feat_metric ''login_frequency'' ''is_active_user'' (\<lambda>v. pd_gt v 5),
        feat_metric ''profile_completion_time'' ''completed_profile_quickly'' (\<lambda>v. pd_lt v 300),
        feat_metric ''data_modification_count'' ''frequent_modifications'' (\<lambda>v. pd_gt v 10),
        feat_metric ''session_duration_avg'' ''long_sessions'' (\<lambda>v. pd_gt v 1800),
        feat_description]"

text \<open>\<open>engineer_features\<close>: the feature frame and the data frame as it leaves it.\<close>

definition engineer_features :: "env \<Rightarrow> pydict \<Rightarrow> error + fstate" where
  "engineer_features E df = foldl ebind (Inr ([], df)) (feature_steps E)"

section \<open>Risk model: labels (ml\_models/clinic\_risk\_model.py)\<close>

definition py_le :: "pyval \<Rightarrow> real \<Rightarrow> error + bool" where
  "py_le v c = (case as_number v of None \<Rightarrow> Inl (TypeError ''<='') | Some x \<Rightarrow> Inr (x \<le> c))"

text \<open>The body of the loop of \<open>prepare_labels\<close>: one score to its level.\<close>

definition risk_level_of :: "pyval \<Rightarrow> error + string" where
  "risk_level_of score =
     ebind (py_le score 0.3) (\<lambda>low.
       if low then Inr ''LOW''
       else ebind (py_le score 0.7) (\<lambda>medium.
         if medium then Inr ''MEDIUM'' else Inr ''HIGH''))"

fun risk_levels_of :: "pyval list \<Rightarrow> error + string list" where
  "risk_levels_of [] = Inr []"
| "risk_levels_of (score # scores) =
     ebind (risk_level_of score) (\<lambda>l.
     ebind (risk_levels_of scores) (\<lambda>ls. Inr (l # ls)))"

text \<open>
  A training frame: its columns and its rows. \<open>row.get(k, d)\<close> is
  \<open>dict_get\<close>.
\<close>

record dataframe =
  df_columns :: "string list"
  df_rows :: "pydict list"

definition synthetic_risk_score :: "pydict \<Rightarrow> error + pyval" where
  "synthetic_risk_score row =
     (let s0 = 0.5;
          s1 = s0 + (if \<not> truthy (dict_get row ''has_license'' (PBool True)) then 0.2 else 0);
          s2 = s1 + (if \<not> truthy (dict_get row ''has_website'' (PBool True)) then 0.1 else 0);
          s3 = s2 + (if truthy (dict_get row ''is_new_business'' (PBool False)) then 0.15 else 0);
          s4 = s3 + (if truthy (dict_get row ''is_solo_practice'' (PBool False)) then 0.1 else 0);
          s5 = s4 + (if \<not> truthy (dict_get row ''has_accreditation'' (PBool True)) then 0.1 else 0)
      in
      ebind (py_gt (dict_get row ''years_in_business'' (PNum 0)) 5) (\<lambda>established.
      let s6 = s5 - (if established then 0.1 else 0);
          s7 = s6 - (if truthy (dict_get row ''has_accreditation'' (PBool False)) then 0.1 else 0);
          s8 = s7 - (if truthy (dict_get row ''license_format_valid'' (PBool False)) then 0.15 else 0)
      in Inr (PNum (max 0.0 (min 1.0 s8)))))"

fun create_synthetic_risk_scores :: "pydict list \<Rightarrow> error + pyval list" where
  "create_synthetic_risk_scores [] = Inr []"
| "create_synthetic_risk_scores (row # rows) =
     ebind (synthetic_risk_score row) (\<lambda>s.
     ebind (create_synthetic_risk_scores rows) (\<lambda>ss. Inr (s # ss)))"

definition prepare_labels :: "dataframe \<Rightarrow> error + string list \<times> pyval list" where
  "prepare_labels df =
     ebind (if ''risk_score'' \<in> set (df_columns df)
            then Inr (map (\<lambda>row. fillna (dict_get row ''risk_score'' PNone) (PNum 0.5)) (df_rows df))
            else create_synthetic_risk_scores (df_rows df)) (\<lambda>risk_scores.
     ebind (risk_levels_of risk_scores) (\<lambda>risk_levels.
     Inr (risk_levels, risk_scores)))"

section \<open>Risk model: model selection\<close>

text \<open>
  The candidates of \<open>train_model\<close> in the order of the dictionary
  \<open>models\<close>. The five cross-validation scores of a candidate come from
  scikit-learn and are a parameter. The selected pipeline is named by its algorithm.
\<close>

datatype algorithm = RandomForest | GradientBoosting | LogisticRegression

definition models :: "algorithm list" where
  "models = [RandomForest, GradientBoosting, LogisticRegression]"

fun algorithm_name :: "algorithm \<Rightarrow> string" where
  "algorithm_name RandomForest = ''RandomForest''"
| "algorithm_name GradientBoosting = ''GradientBoosting''"
| "algorithm_name LogisticRegression = ''LogisticRegression''"

record selection =
  best_model :: "algorithm option"
  best_score :: real
  best_name :: string

definition mean :: "real list \<Rightarrow> real" where
  "mean xs = sum_list xs / real (length xs)"

definition select_step :: "(algorithm \<Rightarrow> real list) \<Rightarrow> selection \<Rightarrow> algorithm \<Rightarrow> selection" where
  "select_step cross_val_score sel name =
     (let avg_score = mean (cross_val_score name) in
      if avg_score > best_score sel
      then \<lparr> best_model = Some name, best_score = avg_score, best_name = algorithm_name name \<rparr>
      else sel)"

definition select_best :: "(algorithm \<Rightarrow> real list) \<Rightarrow> selection" where
  "select_best cross_val_score =
     foldl (select_step cross_val_score)
       \<lparr> best_model = None, best_score = 0, best_name = [] \<rparr> models"

text \<open>The loop followed by \<open>best_model.fit(X_train, y_train)\<close>.\<close>

definition select_and_fit :: "(algorithm \<Rightarrow> real list) \<Rightarrow> error + algorithm" where
  "select_and_fit cross_val_score =
     (case best_model (select_best cross_val_score) of
        None \<Rightarrow> Inl (AttributeError ''NoneType object has no attribute fit'')
      | Some a \<Rightarrow> Inr a)"

section \<open>Risk model: prediction\<close>

text \<open>
  The fitted pipeline is a scikit-learn object: \<open>predict\<close> gives the label
  of the one row, \<open>predict_proba\<close> its class probabilities; both may raise.
  A label encoder is its list \<open>classes_\<close>.
\<close>

record classifier =
  predict :: "frame \<Rightarrow> error + string"
  predict_proba :: "frame \<Rightarrow> error + real list"

type_synonym label_encoder = "pyval list"

record clinic_risk_model =
  model :: "classifier option"
  label_encoders :: "string \<rightharpoonup> label_encoder"
  feature_columns :: "string list"
  model_version :: string

record risk_assessment =
  risk_score :: real
  risk_level :: string
  account_status :: string
  risk_flags :: "string list"
  risk_confidence :: real
  result_model_version :: string
  prediction_timestamp :: string

text \<open>\<open>for col in self.feature_columns: if col not in X.columns: X[col] = 0\<close>\<close>

definition add_missing_columns :: "string list \<Rightarrow> frame \<Rightarrow> frame" where
  "add_missing_columns cols X =
     foldl (\<lambda>Y col. if col \<in> set (columns Y) then Y else Y @ [(col, PNum 0)]) X cols"

text \<open>\<open>X[self.feature_columns]\<close>\<close>

fun select_columns :: "string list \<Rightarrow> frame \<Rightarrow> error + frame" where
  "select_columns [] X = Inr []"
| "select_columns (c # cs) X =
     (case map_of X c of
        None \<Rightarrow> Inl (KeyError c)
      | Some v \<Rightarrow> ebind (select_columns cs X) (\<lambda>r. Inr ((c, v) # r)))"

fun index_of :: "'a list \<Rightarrow> 'a \<Rightarrow> nat option" where
  "index_of [] y = None"
| "index_of (x # xs) y = (if x = y then Some 0 else map_option Suc (index_of xs y))"

text \<open>
  The loop of \<open>_encode_categorical_features\<close> over the object columns.  A column
  without an encoder gets a new one fitted on its one value; this changes
  \<open>self.label_encoders\<close>, also when a later column raises.
\<close>

fun encode_columns ::
  "string list \<Rightarrow> frame \<Rightarrow> (string \<rightharpoonup> label_encoder) \<Rightarrow> (error + frame) \<times> (string \<rightharpoonup> label_encoder)" where
  "encode_columns [] X les = (Inr X, les)"
| "encode_columns (col # cols) X les =
     (case map_of X col of
        None \<Rightarrow> (Inl (KeyError col), les)
      | Some cell \<Rightarrow>
          (let v = fillna cell (PStr ''unknown'') in
           case les col of
             None \<Rightarrow> encode_columns cols (set_col col (PNum 0) X) (les(col \<mapsto> [v]))
           | Some classes \<Rightarrow>
               (case index_of classes v of
                  None \<Rightarrow> (Inl (ValueError ''y contains previously unseen labels''), les)
                | Some i \<Rightarrow> encode_columns cols (set_col col (PNum (real i)) X) les)))"

definition encode_categorical_features ::
  "env \<Rightarrow> frame \<Rightarrow> (string \<rightharpoonup> label_encoder) \<Rightarrow> (error + frame) \<times> (string \<rightharpoonup> label_encoder)" where
  "encode_categorical_features E X les =
     (case encode_columns (object_columns E X) X les of
        (Inl e, les') \<Rightarrow> (Inl e, les')
      | (Inr X_encoded, les') \<Rightarrow> (Inr (map (\<lambda>(k, v). (k, fillna v (PNum 0))) X_encoded), les'))"

definition weighted_risk_score :: "real list \<Rightarrow> real" where
  "weighted_risk_score risk_proba =
     (let high_prob = (if length risk_proba > 2 then risk_proba ! 2 else 0);
          medium_prob = (if length risk_proba > 1 then risk_proba ! 1 else 0)
      in high_prob * 0.7 + medium_prob * 0.3)"

definition np_max :: "real list \<Rightarrow> error + real" where
  "np_max xs = (case xs of [] \<Rightarrow> Inl (ValueError ''zero-size array'') | y # ys \<Rightarrow> Inr (fold max ys y))"

definition generate_risk_flags :: "pydict \<Rightarrow> string list" where
  "generate_risk_flags clinic_data =
     (if \<not> truthy (dict_get clinic_data ''has_website'' (PBool True)) then [''NO_WEBSITE''] else [])
     @ (if \<not> truthy (dict_get clinic_data ''has_license'' (PBool True)) then [''NO_LICENSE''] else [])
     @ (if \<not> truthy (dict_get clinic_data ''license_format_valid'' (PBool True))
        then [''INVALID_LICENSE_FORMAT''] else [])
     @ (if \<not> truthy (dict_get clinic_data ''has_accreditation'' (PBool True))
        then [''NO_ACCREDITATION''] else [])
     @ (if truthy (dict_get clinic_data ''is_new_business'' (PBool False)) then [''NEW_BUSINESS''] else [])
     @ (if truthy (dict_get clinic_data ''is_solo_practice'' (PBool False)) then [''SOLO_PRACTICE''] else [])"

definition recommend_account_status :: "real \<Rightarrow> string \<Rightarrow> pydict \<Rightarrow> string" where
  "recommend_account_status score level clinic_data =
     (if level = ''HIGH'' then ''RESTRICTED''
      else if level = ''LOW'' \<and> truthy (dict_get clinic_data ''has_license'' (PBool False))
      then ''ACTIVE_LIMITED''
      else ''VERIFICATION_REQUIRED'')"

text \<open>
  The vector handed to the encoder: the engineered features, completed to and
  ordered by \<open>feature_columns\<close>.
\<close>

definition aligned_features :: "string list \<Rightarrow> frame \<Rightarrow> error + frame" where
  "aligned_features cols X = select_columns cols (add_missing_columns cols X)"

text \<open>
  The body of the \<open>try\<close> block of \<open>predict_risk\<close> for a
  dictionary, with the model object as it is afterwards. \<open>df\<close> is the data
  frame after \<open>engineer_features\<close>; its row goes to
  \<open>_generate_risk_flags\<close> and \<open>_recommend_account_status\<close>.
\<close>

definition predict_risk_try ::
  "env \<Rightarrow> clinic_risk_model \<Rightarrow> classifier \<Rightarrow> pydict \<Rightarrow> (error + risk_assessment) \<times> clinic_risk_model" where
  "predict_risk_try E self clf clinic_data =
     (case engineer_features E clinic_data of
        Inl e \<Rightarrow> (Inl e, self)
      | Inr (X, df) \<Rightarrow>
          (case aligned_features (feature_columns self) X of
             Inl e \<Rightarrow> (Inl e, self)
           | Inr X_aligned \<Rightarrow>
               (case encode_categorical_features E X_aligned (label_encoders self) of
                  (Inl e, les) \<Rightarrow> (Inl e, self\<lparr>label_encoders := les\<rparr>)
                | (Inr X_encoded, les) \<Rightarrow>
                    (ebind (predict clf X_encoded) (\<lambda>level.
                     ebind (predict_proba clf X_encoded) (\<lambda>risk_proba.
                     let score = weighted_risk_score risk_proba;
                         flags = generate_risk_flags df;
                         status = recommend_account_status score level df
                     in
                     ebind (np_max risk_proba) (\<lambda>conf.
                     Inr \<lparr> risk_score = score, risk_level = level, account_status = status,
                           risk_flags = flags, risk_confidence = conf,
                           result_model_version = model_version self,
                           prediction_timestamp = now_isoformat E \<rparr>))),
                     self\<lparr>label_encoders := les\<rparr>))))"

text \<open>\<open>predict_risk\<close>: \<open>None\<close> when no model is loaded and when the \<open>try\<close> block raised.\<close>

definition predict_risk ::
  "env \<Rightarrow> clinic_risk_model \<Rightarrow> pydict \<Rightarrow> risk_assessment option \<times> clinic_risk_model" where
  "predict_risk E self clinic_data =
     (case model self of
        None \<Rightarrow> (None, self)
      | Some clf \<Rightarrow>
          (case predict_risk_try E self clf clinic_data of
             (Inl e, self') \<Rightarrow> (None, self')
           | (Inr result, self') \<Rightarrow> (Some result, self')))"

section \<open>Batch assessment (ml\_models/api\_integration.py)\<close>










section \<open>Simple server (ml\_models/simple\_api.py)\<close>














section \<open>The decision table of the specification\<close>

definition decision_table :: "string \<Rightarrow> bool \<Rightarrow> string" where
  "decision_table level has_license =
     (if level = ''HIGH'' then ''RESTRICTED''
      else if level = ''LOW'' \<and> has_license then ''ACTIVE_LIMITED''
      else ''VERIFICATION_REQUIRED'')"

section \<open>Example inputs\<close>

text \<open>
  A clock, a timestamp parser that finds no time, a JSON reader that always raises,
  and the dtype rule "a column holding a string has dtype object".
\<close>

definition example_env :: env where
  "example_env =
     \<lparr> current_year = 2026, now_isoformat = ''2026-01-01T00:00:00'',
       to_datetime = (\<lambda>v. Inr None), json_len = (\<lambda>s. None),
       object_columns =
         (\<lambda>X. map fst (filter (\<lambda>(k, v). case v of PStr s \<Rightarrow> True | _ \<Rightarrow> False) X)) \<rparr>"

text \<open>A classifier that answers every row with the same label and probabilities.\<close>

definition example_classifier :: "string \<Rightarrow> real list \<Rightarrow> classifier" where
  "example_classifier label proba =
     \<lparr> predict = (\<lambda>X. Inr label), predict_proba = (\<lambda>X. Inr proba) \<rparr>"

definition failing_classifier :: classifier where
  "failing_classifier =
     \<lparr> predict = (\<lambda>X. Inl (LibraryError ''predict failed'')),
       predict_proba = (\<lambda>X. Inl (LibraryError ''predict_proba failed'')) \<rparr>"

definition example_model :: "classifier \<Rightarrow> clinic_risk_model" where
  "example_model clf =
     \<lparr> model = Some clf, label_encoders = Map.empty,
       feature_columns =
         [''has_website'', ''has_license'', ''license_format_valid'', ''has_accreditation'',
          ''is_new_business'', ''is_solo_practice''],
       model_version = ''2.0'' \<rparr>"

definition new_clinic :: pydict where
  "new_clinic =
     [''clinic_name'' \<mapsto> PStr ''New Clinic'', ''website'' \<mapsto> PNone,
      ''license_number'' \<mapsto> PNone, ''accreditation'' \<mapsto> PNone,
      ''year_established'' \<mapsto> PNum 2026, ''number_of_doctors'' \<mapsto> PNum 1]"


definition example_frame :: dataframe where
  "example_frame =
     \<lparr> df_columns = [''clinic_name'', ''risk_score''],
       df_rows = [[''clinic_name'' \<mapsto> PStr ''A'', ''risk_score'' \<mapsto> PNum 0.2],
                  [''clinic_name'' \<mapsto> PStr ''B'', ''risk_score'' \<mapsto> PNone],
                  [''clinic_name'' \<mapsto> PStr ''C'', ''risk_score'' \<mapsto> PNum 0.9]] \<rparr>"

definition empty_bundle :: model_data where
  "empty_bundle = \<lparr> md_model = None, md_scaler = None, md_version = None \<rparr>"



section \<open>Theorems\<close>

lemma py_lt_number: "as_number v = Some x \<Longrightarrow> py_lt v c = Inr (x < c)"
  by (simp add: py_lt_def)

lemma py_gt_number: "as_number v = Some x \<Longrightarrow> py_gt v c = Inr (x > c)"
  by (simp add: py_gt_def)

lemma py_and_Inr: "py_and (Inr a) (Inr b) = Inr (a \<and> b)"
  by (simp add: py_and_def)

lemma ebind_Inr: "ebind (Inr v) f = f v"
  by (simp add: ebind_def)

lemma ebind_Inl: "ebind (Inl e) f = Inl e"
  by (simp add: ebind_def)

lemma snd_indicator: "snd (indicator c name delta st) = snd st + (if c then delta else 0)"
  by (simp add: indicator_def)

lemma predict_human_mock_numeric:
  assumes "as_number (dict_get snapshot ''timeOnPageSeconds'' (PNum 0)) = Some t"
    and "as_number (dict_get snapshot ''mouseMoveRate'' (PNum 0)) = Some m"
    and "as_number (dict_get snapshot ''keyPressRate'' (PNum 0)) = Some k"
    and "as_number (dict_get snapshot ''idleRatio'' (PNum 0)) = Some idle"
    and "as_number (dict_get snapshot ''interactionScore'' (PNum 0)) = Some iscore"
  shows "\<exists>bs hs. predict_human_mock snapshot =
           Inr (mock_result bs hs (adjusted_score t m k idle iscore))"
proof -
  have "snd (indicator (idle < 0.5) ''low idle ratio'' (- 0.1)
               (indicator (m > 0.5 \<and> k > 0.1) ''active interaction'' (- 0.2)
                 (indicator (t > 30 \<and> t < 300) ''reasonable time on page'' (- 0.2)
                   ([], snd (indicator (iscore < 0.1) ''low interaction score'' 0.1
               (indicator (idle > 0.7) ''high idle ratio'' 0.2
                 (indicator (m < 0.1 \<and> k < 0.1) ''minimal interaction'' 0.2
                   (indicator (t < 5) ''very short time on page'' 0.3 ([], 0.5)))))))))
        = adjusted_score t m k idle iscore"
    unfolding snd_indicator adjusted_score_def by simp
  then show ?thesis
    unfolding predict_human_mock_def Let_def
    by (simp only: py_lt_number [OF assms(1)] py_gt_number [OF assms(1)]
        py_lt_number [OF assms(2)] py_gt_number [OF assms(2)]
        py_lt_number [OF assms(3)] py_gt_number [OF assms(3)]
        py_lt_number [OF assms(4)] py_gt_number [OF assms(4)]
        py_lt_number [OF assms(5)] py_and_Inr ebind_Inr) blast
qed



text \<open>
  C10. Some behaviour snapshot makes the rule-based classifier return probabilities that
  do not sum to 1. On a snapshot that triggers no rule (10 s on the page, mouse and key
  rate 0.3, idle ratio 0.6, interaction score 0.5) the score stays 0.5, the verdict is
  "human" with scaled confidence 0, so \<open>probabilities.human = 1 - 0\<close>, while
  \<open>probabilities.bot\<close> is the constant 0.1 of the class that was not
  predicted.
\<close>

theorem predict_human_mock_probabilities_not_distribution:
  "\<exists>snapshot v. predict_human_mock snapshot = Inr v
      \<and> isHuman v \<and> prob_human v = 1 \<and> prob_bot v = 0.1
      \<and> prob_human v + prob_bot v \<noteq> 1"
proof -
  let ?s = "[''timeOnPageSeconds'' \<mapsto> PNum 10, ''mouseMoveRate'' \<mapsto> PNum 0.3,
             ''keyPressRate'' \<mapsto> PNum 0.3, ''idleRatio'' \<mapsto> PNum 0.6,
             ''interactionScore'' \<mapsto> PNum 0.5]"
  from predict_human_mock_numeric [of ?s 10 "0.3" "0.3" "0.6" "0.5"] obtain bs hs where
    a: "predict_human_mock ?s = Inr (mock_result bs hs (adjusted_score 10 0.3 0.3 0.6 0.5))"
    by (auto simp add: dict_get_def)
  have b: "adjusted_score 10 0.3 0.3 0.6 0.5 = 0.5"
    by (simp add: adjusted_score_def)
  from a have "predict_human_mock ?s = Inr (mock_result bs hs 0.5)"
    unfolding b .
  moreover have "isHuman (mock_result bs hs 0.5) \<and> prob_human (mock_result bs hs 0.5) = 1
      \<and> prob_bot (mock_result bs hs 0.5) = 0.1
      \<and> prob_human (mock_result bs hs 0.5) + prob_bot (mock_result bs hs 0.5) \<noteq> 1"
    by (simp add: mock_result_def Let_def)
  ultimately show ?thesis by blast
qed

lemmas feature_defs =
  engineer_features_def feature_steps_def
  feat_submission_def feat_clinic_name_def feat_website_def feat_phone_def feat_email_def
  feat_license_def feat_accreditation_def feat_tax_id_def feat_location_col_def location_cols_def
  feat_address_completeness_def feat_coordinates_def feat_maturity_def feat_doctors_def
  feat_staff_def feat_service_col_def service_cols_def feat_total_specialties_def
  feat_metric_def feat_description_def ebind_def astype_int_def notna_def fillna_def
  pd_gt_def pd_lt_def pd_ge_def pd_eq_def is_digit_def license_pattern_def chomp_def Let_def

lemma engineer_new_clinic:
  "engineer_features example_env new_clinic =
     Inr ([(''clinic_name_length'', PNum 10), (''has_numbers_in_name'', PNum 0),
           (''has_website'', PNum 0), (''website_length'', PNum 0),
           (''has_license'', PNum 0), (''license_length'', PNum 0),
           (''license_format_valid'', PNum 0), (''has_accreditation'', PNum 0),
           (''accreditation_length'', PNum 0), (''years_in_business'', PNum 0),
           (''is_new_business'', PNum 1), (''is_established'', PNum 0),
           (''number_of_doctors'', PNum 1), (''is_solo_practice'', PNum 1),
           (''is_large_clinic'', PNum 0)],
          new_clinic(''years_in_business'' \<mapsto> PNum 0))"
  by (simp add: feature_defs example_env_def new_clinic_def)

lemma predict_risk_example:
  "predict_risk example_env (example_model (example_classifier label (p # ps))) new_clinic =
     (Some \<lparr> risk_score = weighted_risk_score (p # ps), risk_level = label,
             account_status = decision_table label False, risk_flags = [],
             risk_confidence = fold max ps p, result_model_version = ''2.0'',
             prediction_timestamp = ''2026-01-01T00:00:00'' \<rparr>,
      example_model (example_classifier label (p # ps)))"
  apply (simp add: predict_risk_def predict_risk_try_def engineer_new_clinic example_model_def
     example_classifier_def)
  apply (simp add: aligned_features_def add_missing_columns_def columns_def ebind_def
     encode_categorical_features_def example_env_def fillna_def decision_table_def
     np_max_def generate_risk_flags_def recommend_account_status_def dict_get_def new_clinic_def)
  done

lemma predict_risk_SomeD:
  assumes "fst (predict_risk E self cd) = Some r"
  shows "\<exists>clf X df Xa Xe les p conf.
           model self = Some clf \<and> engineer_features E cd = Inr (X, df)
           \<and> aligned_features (feature_columns self) X = Inr Xa
           \<and> encode_categorical_features E Xa (label_encoders self) = (Inr Xe, les)
           \<and> predict clf Xe = Inr (risk_level r) \<and> predict_proba clf Xe = Inr p
           \<and> np_max p = Inr conf
           \<and> risk_score r = weighted_risk_score p
           \<and> risk_flags r = generate_risk_flags df
           \<and> account_status r = recommend_account_status (risk_score r) (risk_level r) df
           \<and> risk_confidence r = conf"
  using assms
  by (auto simp: predict_risk_def predict_risk_try_def ebind_def Let_def
      split: option.splits sum.splits prod.splits)








lemma risk_level_of_number:
  "risk_level_of (PNum x) = Inr (if x \<le> 0.3 then ''LOW'' else if x \<le> 0.7 then ''MEDIUM'' else ''HIGH'')"
  by (simp add: risk_level_of_def py_le_def ebind_def)

lemma risk_levels_of_all2:
  "risk_levels_of scores = Inr levels \<Longrightarrow> list_all2 (\<lambda>s l. risk_level_of s = Inr l) scores levels"
proof (induction scores arbitrary: levels)
  case Nil
  then show ?case by simp
next
  case (Cons s scores)
  then show ?case
    by (auto simp: ebind_def split: sum.splits)
qed

lemma prepare_labels_levels:
  "prepare_labels df = Inr (levels, scores) \<Longrightarrow> risk_levels_of scores = Inr levels"
  by (auto simp: prepare_labels_def ebind_def split: sum.splits if_splits)

text \<open>
  C2. Where the engine converts a score into a level, in \<open>prepare_labels\<close>,
  the thresholds hold: at most 0.3 is LOW, above 0.3 and at most 0.7 is MEDIUM, above
  0.7 is HIGH, for every score of the training frame. The risk level of an assessment is
  the label the classifier predicts for the encoded feature vector; it is not computed
  from the assessment's risk score.
\<close>

theorem risk_level_thresholds:
  "risk_level_of (PNum x) =
      Inr (if x \<le> 0.3 then ''LOW'' else if x \<le> 0.7 then ''MEDIUM'' else ''HIGH'')
   \<and> (prepare_labels df = Inr (levels, scores) \<longrightarrow>
        list_all2 (\<lambda>s l. risk_level_of s = Inr l) scores levels)
   \<and> (fst (predict_risk E self cd) = Some r \<longrightarrow>
        (\<exists>clf X df' Xa Xe les.
            model self = Some clf \<and> engineer_features E cd = Inr (X, df')
          \<and> aligned_features (feature_columns self) X = Inr Xa
          \<and> encode_categorical_features E Xa (label_encoders self) = (Inr Xe, les)
          \<and> predict clf Xe = Inr (risk_level r)))"
proof (intro conjI impI)
  show "risk_level_of (PNum x) =
      Inr (if x \<le> 0.3 then ''LOW'' else if x \<le> 0.7 then ''MEDIUM'' else ''HIGH'')"
    by (rule risk_level_of_number)
next
  assume "prepare_labels df = Inr (levels, scores)"
  then show "list_all2 (\<lambda>s l. risk_level_of s = Inr l) scores levels"
    by (intro risk_levels_of_all2 prepare_labels_levels)
next
  assume "fst (predict_risk E self cd) = Some r"
  from predict_risk_SomeD [OF this]
  show "\<exists>clf X df' Xa Xe les.
            model self = Some clf \<and> engineer_features E cd = Inr (X, df')
          \<and> aligned_features (feature_columns self) X = Inr Xa
          \<and> encode_categorical_features E Xa (label_encoders self) = (Inr Xe, les)
          \<and> predict clf Xe = Inr (risk_level r)"
    by blast
qed

lemma prepare_labels_example:
  "prepare_labels example_frame =
     Inr ([''LOW'', ''MEDIUM'', ''HIGH''], [PNum 0.2, PNum 0.5, PNum 0.9])"
  by (simp add: prepare_labels_def example_frame_def ebind_def dict_get_def fillna_def
      risk_level_of_number)

theorem risk_level_thresholds_witness:
  "prepare_labels example_frame = Inr ([''LOW'', ''MEDIUM'', ''HIGH''], [PNum 0.2, PNum 0.5, PNum 0.9])
   \<and> list_all2 (\<lambda>s l. risk_level_of s = Inr l) [PNum 0.2, PNum 0.5, PNum 0.9] [''LOW'', ''MEDIUM'', ''HIGH'']
   \<and> fst (predict_risk example_env (example_model (example_classifier ''MEDIUM'' [0.2, 0.5, 0.3])) new_clinic)
       = Some \<lparr> risk_score = weighted_risk_score [0.2, 0.5, 0.3], risk_level = ''MEDIUM'',
             account_status = decision_table ''MEDIUM'' False, risk_flags = [],
             risk_confidence = fold max [0.5, 0.3] 0.2, result_model_version = ''2.0'',
             prediction_timestamp = ''2026-01-01T00:00:00'' \<rparr>
   \<and> (\<exists>clf Xe. model (example_model (example_classifier ''MEDIUM'' [0.2, 0.5, 0.3])) = Some clf
          \<and> predict clf Xe = Inr ''MEDIUM'')"
  using risk_level_thresholds [of "0.5" example_frame "[''LOW'', ''MEDIUM'', ''HIGH'']"
      "[PNum 0.2, PNum 0.5, PNum 0.9]" example_env
      "example_model (example_classifier ''MEDIUM'' [0.2, 0.5, 0.3])" new_clinic
      "\<lparr> risk_score = weighted_risk_score [0.2, 0.5, 0.3], risk_level = ''MEDIUM'',
             account_status = decision_table ''MEDIUM'' False, risk_flags = [],
             risk_confidence = fold max [0.5, 0.3] 0.2, result_model_version = ''2.0'',
             prediction_timestamp = ''2026-01-01T00:00:00'' \<rparr>"]
  by (simp add: prepare_labels_example predict_risk_example) blast

text \<open>
  C2 as the specification words it does not hold in \<open>predict_risk\<close>: with
  class probabilities \<open>[0, 0, 1]\<close> and predicted label HIGH the assessment
  has risk score 0.7 and risk level HIGH, while the thresholds give MEDIUM for 0.7.
\<close>

theorem predicted_level_not_thresholded_counterexample:
  "fst (predict_risk example_env (example_model (example_classifier ''HIGH'' [0, 0, 1])) new_clinic)
     = Some \<lparr> risk_score = 0.7, risk_level = ''HIGH'',
             account_status = ''RESTRICTED'', risk_flags = [],
             risk_confidence = 1, result_model_version = ''2.0'',
             prediction_timestamp = ''2026-01-01T00:00:00'' \<rparr>
   \<and> risk_level_of (PNum 0.7) = Inr ''MEDIUM''"
  by (simp add: predict_risk_example weighted_risk_score_def decision_table_def risk_level_of_number)







lemma predict_human_error:
  "predict_human_try md snapshot = Inl e \<Longrightarrow> predict_human md snapshot = error_verdict e"
  by (simp add: predict_human_def)

lemma predict_risk_error:
  "model self = Some clf \<Longrightarrow> fst (predict_risk_try E self clf cd) = Inl e
     \<Longrightarrow> fst (predict_risk E self cd) = None"
  by (auto simp: predict_risk_def split: prod.splits)

text \<open>
  C7. When the \<open>try\<close> block of \<open>predict_human\<close> raises, the
  caller still gets a verdict, and it is fail-closed: \<open>isHuman\<close> false,
  confidence 0, probabilities human 0 and bot 1; otherwise the verdict of the block is
  returned. When the \<open>try\<close> block of \<open>predict_risk\<close> raises, or
  no model is loaded, \<open>predict_risk\<close> returns \<open>None\<close>: no
  assessment, and so no trusted one.
\<close>

theorem prediction_error_paths:
  "(predict_human_try md snapshot = Inl e \<longrightarrow>
       isHuman (predict_human md snapshot) = False
     \<and> confidence (predict_human md snapshot) = 0
     \<and> prob_human (predict_human md snapshot) = 0
     \<and> prob_bot (predict_human md snapshot) = 1)
   \<and> (predict_human_try md snapshot = Inr v \<longrightarrow> predict_human md snapshot = v)
   \<and> (model self = Some clf \<and> fst (predict_risk_try E self clf cd) = Inl e' \<longrightarrow>
        fst (predict_risk E self cd) = None)
   \<and> (model self = None \<longrightarrow> fst (predict_risk E self cd) = None)"
  by (auto simp: predict_human_def error_verdict_def predict_risk_def split: prod.splits)

lemma predict_risk_try_failing:
  "fst (predict_risk_try example_env (example_model failing_classifier) failing_classifier new_clinic)
     = Inl (LibraryError ''predict failed'')"
  apply (simp add: predict_risk_try_def engineer_new_clinic example_model_def)
  apply (simp add: aligned_features_def add_missing_columns_def columns_def ebind_def
     encode_categorical_features_def example_env_def fillna_def failing_classifier_def)
  done

theorem prediction_error_paths_witness:
  "predict_human_try empty_bundle Map.empty = Inl (KeyError ''model'')
   \<and> isHuman (predict_human empty_bundle Map.empty) = False
   \<and> confidence (predict_human empty_bundle Map.empty) = 0
   \<and> prob_human (predict_human empty_bundle Map.empty) = 0
   \<and> prob_bot (predict_human empty_bundle Map.empty) = 1
   \<and> fst (predict_risk_try example_env (example_model failing_classifier) failing_classifier new_clinic)
        = Inl (LibraryError ''predict failed'')
   \<and> fst (predict_risk example_env (example_model failing_classifier) new_clinic) = None"
proof -
  have a: "predict_human_try empty_bundle Map.empty = Inl (KeyError ''model'')"
    by (simp add: predict_human_try_def empty_bundle_def subscript_def ebind_def)
  have b: "model (example_model failing_classifier) = Some failing_classifier"
    by (simp add: example_model_def)
  note c = predict_risk_try_failing
  from a b c prediction_error_paths [of empty_bundle Map.empty "KeyError ''model''" _
      "example_model failing_classifier" failing_classifier example_env new_clinic
      "LibraryError ''predict failed''"]
  show ?thesis by simp
qed

text \<open>
  C7 as the specification words it does not hold on the risk path: when the classifier
  raises, \<open>predict_risk\<close> returns \<open>None\<close> instead of a default
  assessment.
\<close>

theorem predict_risk_returns_none_counterexample:
  "fst (predict_risk_try example_env (example_model failing_classifier) failing_classifier new_clinic)
        = Inl (LibraryError ''predict failed'')
   \<and> fst (predict_risk example_env (example_model failing_classifier) new_clinic) = None"
  using predict_risk_try_failing
    predict_risk_error [OF _ predict_risk_try_failing]
  by (simp add: example_model_def)

text \<open>
  C9 at the input where the code misses it: when every candidate has mean score 0, the
  loop selects none of them (\<open>best_score\<close> starts at 0 and must be
  exceeded), and \<open>best_model.fit\<close> raises on \<open>None\<close>.
\<close>

theorem select_all_zero_scores:
  "best_model (select_best (\<lambda>a. [0, 0, 0, 0, 0])) = None
   \<and> select_and_fit (\<lambda>a. [0, 0, 0, 0, 0])
       = Inl (AttributeError ''NoneType object has no attribute fit'')"
  by (simp add: select_and_fit_def select_best_def select_step_def models_def mean_def)

text \<open>
  When some candidate has a positive mean score, the loop selects a candidate of
  highest mean score, and every candidate declared before it scores strictly less.
\<close>

lemma select_and_fit_positive:
  assumes "\<exists>a \<in> set models. 0 < mean (cv a)"
  shows "\<exists>a. select_and_fit cv = Inr a
           \<and> (\<forall>b \<in> set models. mean (cv b) \<le> mean (cv a))
           \<and> (\<forall>b \<in> set (takeWhile (\<lambda>b. b \<noteq> a) models). mean (cv b) < mean (cv a))"
  using assms
  by (auto simp: select_and_fit_def select_best_def select_step_def models_def Let_def)



lemma map_of_snoc:
  "map_of (X @ [(a, v)]) c =
     (case map_of X c of Some w \<Rightarrow> Some w | None \<Rightarrow> if c = a then Some v else None)"
  by (simp add: map_add_def split: option.splits)







text \<open>
  C5 at an input where the code misses it. For a new solo clinic submitted with
  \<open>website\<close>, \<open>license_number\<close> and \<open>accreditation\<close>
  null, the engineered features are \<open>has_website = 0\<close>, \<open>has_license =
  0\<close>, \<open>license_format_valid = 0\<close>, \<open>has_accreditation =
  0\<close>, \<open>is_new_business = 1\<close> and \<open>is_solo_practice = 1\<close>,
  yet the assessment has no risk flag: \<open>predict_risk\<close> hands
  \<open>_generate_risk_flags\<close> the row of the submitted data frame, which has
  none of these keys.
\<close>

theorem predict_risk_flags_ignore_features:
  "engineer_features example_env new_clinic =
     Inr ([(''clinic_name_length'', PNum 10), (''has_numbers_in_name'', PNum 0),
           (''has_website'', PNum 0), (''website_length'', PNum 0),
           (''has_license'', PNum 0), (''license_length'', PNum 0),
           (''license_format_valid'', PNum 0), (''has_accreditation'', PNum 0),
           (''accreditation_length'', PNum 0), (''years_in_business'', PNum 0),
           (''is_new_business'', PNum 1), (''is_established'', PNum 0),
           (''number_of_doctors'', PNum 1), (''is_solo_practice'', PNum 1),
           (''is_large_clinic'', PNum 0)],
          new_clinic(''years_in_business'' \<mapsto> PNum 0))
   \<and> fst (predict_risk example_env (example_model (example_classifier ''MEDIUM'' [0.2, 0.5, 0.3])) new_clinic)
     = Some \<lparr> risk_score = 0.36, risk_level = ''MEDIUM'',
              account_status = ''VERIFICATION_REQUIRED'', risk_flags = [],
              risk_confidence = 0.5, result_model_version = ''2.0'',
              prediction_timestamp = ''2026-01-01T00:00:00'' \<rparr>"
  by (simp add: engineer_new_clinic predict_risk_example weighted_risk_score_def decision_table_def)











end
